theory Spec2Isabelle
  imports Main
begin

section \<open>Semantic-analysis visitors of the COOL compiler\<close>

text \<open>
  A shallow embedding of \<^verbatim>\<open>src/compiler/utils/visitors_definitions.py\<close>: the
  reflective \<^verbatim>\<open>NodeVisitor.visit\<close>, pass 1 (\<^verbatim>\<open>TypeCollectorVisitor\<close>), pass 2
  (\<^verbatim>\<open>TypeInheritanceVisitor\<close>) and pass 4 (\<^verbatim>\<open>TypeCheckerVisitor\<close>).

  The file imports the modules \<^verbatim>\<open>AST_definitions\<close>, \<^verbatim>\<open>context\<close> and \<^verbatim>\<open>errors\<close>, which are
  not embedded here. The node classes carry the fields the visitors read; the operations
  of \<^verbatim>\<open>programContext\<close> are parameters of the visitors, so that every general theorem
  holds for any implementation of them. A concrete registry, written after the
  specification, is used for the concrete evaluations only.
\<close>

subsection \<open>Python values, diagnostics and exceptions\<close>

type_synonym pos = "int \<times> int"

text \<open>
  Modelled from the spec: the class \<^verbatim>\<open>error\<close> of the module \<^verbatim>\<open>errors\<close> is missing. A
  diagnostic has a kind (the taxonomy of section 7), a message and a source position.
\<close>

datatype kind =
    DuplicateType | UnknownType | InvalidParent | DuplicateAttribute | DuplicateMethod
  | InvalidOverride | DuplicateFormal | UnknownVariable | TypeMismatch | IllegalComparison
  | UnknownMethod | ArityMismatch | ArgumentTypeMismatch | ReturnTypeMismatch

datatype error = Error kind string pos

text \<open>
  What a visitor method hands back: a type name (a Python \<^verbatim>\<open>str\<close>), an \<^verbatim>\<open>error\<close> object, or
  \<^verbatim>\<open>None\<close> when the method ends without a \<^verbatim>\<open>return\<close>.
\<close>

datatype pyval = Str string | Err error | PyNone

text \<open>The test \<^verbatim>\<open>type(result) is error\<close>.\<close>

fun is_error :: "pyval \<Rightarrow> bool" where
  "is_error (Err e) = True"
| "is_error v = False"

text \<open>
  The test \<^verbatim>\<open>if result:\<close>. An \<^verbatim>\<open>error\<close> object is taken to be truthy, as every instance
  of a class without \<^verbatim>\<open>__bool__\<close> and \<^verbatim>\<open>__len__\<close> is.
\<close>

fun truthy :: "pyval \<Rightarrow> bool" where
  "truthy (Str s) = (s \<noteq> [])"
| "truthy (Err e) = True"
| "truthy PyNone = False"

text \<open>The exceptions the visitors can raise by themselves.\<close>

datatype exn =
    Exception string
  | UnboundLocalError string
  | AttributeError string
  | KeyError string
  | RecursionError

text \<open>A call either raises (\<open>Inl\<close>) or returns a value (\<open>Inr\<close>).\<close>

type_synonym result = "exn + pyval"

text \<open>An environment is a Python \<^verbatim>\<open>dict\<close> from names to values.\<close>

type_synonym env = "string \<rightharpoonup> pyval"

subsection \<open>Expression nodes\<close>

text \<open>
  The subclasses of \<^verbatim>\<open>NodeBinaryOperation\<close>. \<open>NodeBinaryOther c\<close> is any class named \<open>c\<close>
  whose first base class is \<^verbatim>\<open>NodeBinaryOperation\<close> and which is none of the five classes
  the visitor names.
\<close>

datatype binop =
    NodeAddition | NodeSubtraction | NodeDivision | NodeMultiplication | NodeEqual
  | NodeBinaryOther string

text \<open>
  Every node carries its position (\<^verbatim>\<open>line\<close>, \<^verbatim>\<open>column\<close>). \<open>NodeOther c\<close> is a node of a class
  named \<open>c\<close> whose first base class is not \<^verbatim>\<open>NodeBinaryOperation\<close> and for which
  \<^verbatim>\<open>TypeCheckerVisitor\<close> has no method \<^verbatim>\<open>visit_c\<close>.
\<close>

datatype node =
    NodeInteger pos
  | NodeString pos
  | NodeBoolean pos
  | NodeBooleanComplement pos node
  | NodeObject pos string
  | NodeSelf pos
  | NodeNewObject pos string
  | NodeAssignment pos string node
  | NodeLet pos string string node
  | NodeLetComplex pos "node list" node
  | NodeBinaryOperation binop pos node node
  | NodeDynamicDispatch pos node string "node list"
  | NodeExpr pos
  | NodeOther string pos

fun position :: "node \<Rightarrow> pos" where
  "position (NodeInteger p) = p"
| "position (NodeString p) = p"
| "position (NodeBoolean p) = p"
| "position (NodeBooleanComplement p e) = p"
| "position (NodeObject p x) = p"
| "position (NodeSelf p) = p"
| "position (NodeNewObject p t) = p"
| "position (NodeAssignment p x e) = p"
| "position (NodeLet p x t e) = p"
| "position (NodeLetComplex p ls e) = p"
| "position (NodeBinaryOperation k p a b) = p"
| "position (NodeDynamicDispatch p e m as) = p"
| "position (NodeExpr p) = p"
| "position (NodeOther c p) = p"

fun binop_clsname :: "binop \<Rightarrow> string" where
  "binop_clsname NodeAddition = ''NodeAddition''"
| "binop_clsname NodeSubtraction = ''NodeSubtraction''"
| "binop_clsname NodeDivision = ''NodeDivision''"
| "binop_clsname NodeMultiplication = ''NodeMultiplication''"
| "binop_clsname NodeEqual = ''NodeEqual''"
| "binop_clsname (NodeBinaryOther c) = c"

text \<open>\<^verbatim>\<open>node.clsname\<close>: the name of the node's class.\<close>

fun clsname :: "node \<Rightarrow> string" where
  "clsname (NodeInteger p) = ''NodeInteger''"
| "clsname (NodeString p) = ''NodeString''"
| "clsname (NodeBoolean p) = ''NodeBoolean''"
| "clsname (NodeBooleanComplement p e) = ''NodeBooleanComplement''"
| "clsname (NodeObject p x) = ''NodeObject''"
| "clsname (NodeSelf p) = ''NodeSelf''"
| "clsname (NodeNewObject p t) = ''NodeNewObject''"
| "clsname (NodeAssignment p x e) = ''NodeAssignment''"
| "clsname (NodeLet p x t e) = ''NodeLet''"
| "clsname (NodeLetComplex p ls e) = ''NodeLetComplex''"
| "clsname (NodeBinaryOperation k p a b) = binop_clsname k"
| "clsname (NodeDynamicDispatch p e m as) = ''NodeDynamicDispatch''"
| "clsname (NodeExpr p) = ''NodeExpr''"
| "clsname (NodeOther c p) = c"

text \<open>The test \<^verbatim>\<open>node.__class__.__bases__[0] is NodeBinaryOperation\<close>.\<close>

fun bases0_is_NodeBinaryOperation :: "node \<Rightarrow> bool" where
  "bases0_is_NodeBinaryOperation (NodeBinaryOperation k p a b) = True"
| "bases0_is_NodeBinaryOperation n = False"

text \<open>\<^verbatim>\<open>nodeLet.idName\<close>: only \<^verbatim>\<open>NodeLet\<close> is known to have the attribute.\<close>

fun idName :: "node \<Rightarrow> string option" where
  "idName (NodeLet p x t e) = Some x"
| "idName n = None"

text \<open>\<^verbatim>\<open>'visit_' + node.clsname\<close>.\<close>

definition visitor_method_name :: "node \<Rightarrow> string" where
  "visitor_method_name n = ''visit_'' @ clsname n"

text \<open>The \<^verbatim>\<open>visit_\<close> methods that \<^verbatim>\<open>TypeCheckerVisitor\<close> defines, in the order of the file.\<close>

definition TypeCheckerVisitor_methods :: "string list" where
  "TypeCheckerVisitor_methods =
     [''visit_NodeProgram'', ''visit_NodeClass'', ''visit_NodeClassMethod'',
      ''visit_NodeString'', ''visit_NodeAttr'', ''visit_NodeLetComplex'', ''visit_NodeLet'',
      ''visit_NodeAssignment'', ''visit_NodeBinaryOperation'', ''visit_NodeNewObject'',
      ''visit_NodeExpr'', ''visit_NodeInteger'', ''visit_NodeBoolean'',
      ''visit_NodeBooleanComplement'', ''visit_NodeObject'', ''visit_NodeDynamicDispatch'',
      ''visit_NodeSelf'']"

text \<open>\<^verbatim>\<open>NodeVisitor.not_implemented\<close>.\<close>

definition not_implemented :: "node \<Rightarrow> exn" where
  "not_implemented n = Exception (''Not implemented visit_'' @ clsname n @ '' method'')"

subsection \<open>Declarations\<close>

record NodeAttr =
  attr_idName :: string
  attr_type :: string
  attr_expr :: node
  attr_pos :: pos

record NodeClassMethod =
  method_idName :: string
  formal_param_list :: "(string \<times> string) list"
  returnType :: string
  method_body :: node
  method_pos :: pos

record NodeClass =
  class_idName :: string
  class_parent :: string
  class_line :: int
  class_column :: int
  attributes :: "NodeAttr list"
  methods :: "NodeClassMethod list"

record NodeProgram =
  class_list :: "NodeClass list"

subsection \<open>The operations of \<^verbatim>\<open>programContext\<close> used by pass 4\<close>

text \<open>
  The module \<^verbatim>\<open>context\<close> is missing, so the operations are the fields of a record that
  every visitor takes as its first argument. They are read as functions of their
  arguments: the specification has pass 4 pure and the registry frozen once pass 3 is
  over, with an environment extended as a new snapshot. \<^verbatim>\<open>checkAssign\<close> is called with
  four arguments by \<^verbatim>\<open>visit_NodeLet\<close> and with three by \<^verbatim>\<open>visit_NodeAssignment\<close>; the two
  shapes of call are the fields \<open>checkAssign\<close> and \<open>checkAssign3\<close>.
\<close>

record programContext =
  getType :: "string \<Rightarrow> pos \<Rightarrow> pyval"
  searchValue :: "node \<Rightarrow> env \<Rightarrow> pyval"
  checkAssign :: "string \<Rightarrow> pyval \<Rightarrow> pyval \<Rightarrow> pos \<Rightarrow> pyval"
  checkAssign3 :: "node \<Rightarrow> pyval \<Rightarrow> env \<Rightarrow> pyval"
  checkArithmetic :: "pyval \<Rightarrow> pyval \<Rightarrow> pos \<Rightarrow> pyval"
  checkEqualOp :: "pyval \<Rightarrow> pyval \<Rightarrow> pos \<Rightarrow> pyval"
  checkDynamicDispatch :: "pyval \<Rightarrow> string \<Rightarrow> pyval list \<Rightarrow> pos \<Rightarrow> pyval"
  checkReturnType :: "NodeClassMethod \<Rightarrow> pyval \<Rightarrow> pyval"
  buildEnvForMethod :: "NodeClassMethod \<Rightarrow> env \<Rightarrow> error + env"
  buildEnv :: "string \<Rightarrow> env"

subsection \<open>Pass 4: \<^verbatim>\<open>TypeCheckerVisitor\<close> on expressions\<close>

text \<open>
  \<open>visit ctx n env\<close> is \<^verbatim>\<open>self.visit(n, previousEnv=env)\<close>. It returns what the call
  returns or raises, and the dictionary \<open>env\<close> as the call leaves it: \<^verbatim>\<open>visit_NodeLet\<close>
  updates the dictionary it receives in place, and the same dictionary object is handed
  to the sub-expressions, so the environment is threaded through every call. The
  equations are the methods that \<^verbatim>\<open>getattr\<close> finds for the class of the node; the
  equation for \<open>NodeBinaryOperation\<close> is the first branch of \<^verbatim>\<open>NodeVisitor.visit\<close>, the one
  for \<open>NodeOther\<close> is \<^verbatim>\<open>not_implemented\<close>.

  \<open>nestedLets_loop\<close> is the \<^verbatim>\<open>for\<close> loop of \<^verbatim>\<open>visit_NodeLetComplex\<close>: \<open>Inl r\<close> when the loop
  returns or raises, \<open>Inr newEnv\<close> when it runs to its end, where \<open>newEnv\<close> is \<open>None\<close> as
  long as the local variable is unbound. \<open>arguments_loop\<close> is the \<^verbatim>\<open>for\<close> loop of
  \<^verbatim>\<open>visit_NodeDynamicDispatch\<close> with its accumulator \<^verbatim>\<open>argTypes\<close>.
\<close>

fun visit :: "programContext \<Rightarrow> node \<Rightarrow> env \<Rightarrow> result \<times> env"
  and nestedLets_loop :: "programContext \<Rightarrow> env \<Rightarrow> node list \<Rightarrow> env option \<Rightarrow> result + env option"
  and arguments_loop ::
    "programContext \<Rightarrow> node list \<Rightarrow> env \<Rightarrow> pyval list \<Rightarrow> (result + pyval list) \<times> env"
where
  "visit ctx (NodeString p) env = (Inr (Str ''String''), env)"
| "visit ctx (NodeInteger p) env = (Inr (Str ''Int''), env)"
| "visit ctx (NodeBoolean p) env = (Inr (Str ''Bool''), env)"
| "visit ctx (NodeBooleanComplement p e) env = (Inr (Str ''Bool''), env)"
| "visit ctx (NodeObject p x) env = (Inr (searchValue ctx (NodeObject p x) env), env)"
| "visit ctx (NodeSelf p) env =
     (case env ''wrapperType'' of
        None \<Rightarrow> (Inl (KeyError ''wrapperType''), env)
      | Some v \<Rightarrow> (Inr v, env))"
| "visit ctx (NodeNewObject p t) env =
     (if is_error (getType ctx t p) then (Inr (getType ctx t p), env)
      else (Inr (Str t), env))"
| "visit ctx (NodeAssignment p x e) env =
     (case visit ctx e env of
        (Inl ex, env1) \<Rightarrow> (Inl ex, env1)
      | (Inr r, env1) \<Rightarrow>
          if is_error r then (Inr r, env1)
          else (Inr (checkAssign3 ctx (NodeAssignment p x e) r env1), env1))"
| "visit ctx (NodeLet p x t e) env =
     (case visit ctx e env of
        (Inl ex, env1) \<Rightarrow> (Inl ex, env1)
      | (Inr exprType, env1) \<Rightarrow>
          if is_error exprType then (Inr exprType, env1)
          else (Inr (checkAssign ctx x (Str t) exprType (position e)), env1(x \<mapsto> Str t)))"
| "visit ctx (NodeLetComplex p ls e) env =
     (case nestedLets_loop ctx env ls None of
        Inl r \<Rightarrow> (r, env)
      | Inr None \<Rightarrow> (Inl (UnboundLocalError ''newEnv''), env)
      | Inr (Some newEnv) \<Rightarrow> (fst (visit ctx e newEnv), env))"
| "visit ctx (NodeBinaryOperation k p a b) env =
     (case visit ctx a env of
        (Inl ex, env1) \<Rightarrow> (Inl ex, env1)
      | (Inr typeFirstExpr, env1) \<Rightarrow>
          (case visit ctx b env1 of
             (Inl ex, env2) \<Rightarrow> (Inl ex, env2)
           | (Inr typeSecondExpr, env2) \<Rightarrow>
               if is_error typeFirstExpr then (Inr typeFirstExpr, env2)
               else if is_error typeSecondExpr then (Inr typeSecondExpr, env2)
               else if k \<in> {NodeAddition, NodeSubtraction, NodeDivision, NodeMultiplication}
                 then (Inr (checkArithmetic ctx typeFirstExpr typeSecondExpr p), env2)
               else if k = NodeEqual
                 then (Inr (checkEqualOp ctx typeFirstExpr typeSecondExpr p), env2)
               else (Inr PyNone, env2)))"
| "visit ctx (NodeDynamicDispatch p e m as) env =
     (case visit ctx e env of
        (Inl ex, env1) \<Rightarrow> (Inl ex, env1)
      | (Inr typeExpr, env1) \<Rightarrow>
          if is_error typeExpr then (Inr typeExpr, env1)
          else (case arguments_loop ctx as env1 [] of
                  (Inl r, env2) \<Rightarrow> (r, env2)
                | (Inr argTypes, env2) \<Rightarrow>
                    (Inr (checkDynamicDispatch ctx typeExpr m argTypes p), env2)))"
| "visit ctx (NodeExpr p) env = (Inl RecursionError, env)"
| "visit ctx (NodeOther c p) env = (Inl (not_implemented (NodeOther c p)), env)"
| "nestedLets_loop ctx previousEnv [] newEnv = Inr newEnv"
| "nestedLets_loop ctx previousEnv (nodeLet # rest) newEnv =
     (case visit ctx nodeLet previousEnv of
        (Inl ex, env1) \<Rightarrow> Inl (Inl ex)
      | (Inr r, env1) \<Rightarrow>
          if is_error r then Inl (Inr r)
          else (case idName nodeLet of
                  None \<Rightarrow> Inl (Inl (AttributeError ''idName''))
                | Some x \<Rightarrow> nestedLets_loop ctx previousEnv rest (Some (env1(x \<mapsto> r)))))"
| "arguments_loop ctx [] env argTypes = (Inr argTypes, env)"
| "arguments_loop ctx (arg # rest) env argTypes =
     (case visit ctx arg env of
        (Inl ex, env1) \<Rightarrow> (Inl (Inl ex), env1)
      | (Inr currenttypeExpr, env1) \<Rightarrow>
          if is_error currenttypeExpr then (Inl (Inr currenttypeExpr), env1)
          else arguments_loop ctx rest env1 (argTypes @ [currenttypeExpr]))"

subsection \<open>Pass 4: attributes, methods, classes, program\<close>

text \<open>\<^verbatim>\<open>TypeCheckerVisitor.visit_NodeAttr\<close>.\<close>

definition visit_NodeAttr :: "programContext \<Rightarrow> NodeAttr \<Rightarrow> env \<Rightarrow> result \<times> env" where
  "visit_NodeAttr ctx n previousEnv = visit ctx (attr_expr n) previousEnv"

text \<open>
  \<^verbatim>\<open>TypeCheckerVisitor.visit_NodeClassMethod\<close>. The body is visited with the dictionary
  that \<^verbatim>\<open>buildEnvForMethod\<close> returns, a snapshot of its own, so \<open>previousEnv\<close> is as before
  when the method returns.
\<close>

definition visit_NodeClassMethod :: "programContext \<Rightarrow> NodeClassMethod \<Rightarrow> env \<Rightarrow> result" where
  "visit_NodeClassMethod ctx n previousEnv =
     (case buildEnvForMethod ctx n previousEnv of
        Inl e \<Rightarrow> Inr (Err e)
      | Inr newEnv \<Rightarrow>
          (case fst (visit ctx (method_body n) newEnv) of
             Inl ex \<Rightarrow> Inl ex
           | Inr typeResult \<Rightarrow>
               if is_error typeResult then Inr typeResult
               else Inr (checkReturnType ctx n typeResult)))"

text \<open>The two \<^verbatim>\<open>for\<close> loops of \<^verbatim>\<open>TypeCheckerVisitor.visit_NodeClass\<close>, on the list \<^verbatim>\<open>errors\<close>.\<close>

fun attributes_loop ::
  "programContext \<Rightarrow> NodeAttr list \<Rightarrow> env \<Rightarrow> pyval list \<Rightarrow> (exn + pyval list) \<times> env"
where
  "attributes_loop ctx [] env errors = (Inr errors, env)"
| "attributes_loop ctx (nodeAttr # rest) env errors =
     (case visit_NodeAttr ctx nodeAttr env of
        (Inl ex, env1) \<Rightarrow> (Inl ex, env1)
      | (Inr r, env1) \<Rightarrow>
          attributes_loop ctx rest env1 (if is_error r then errors @ [r] else errors))"

fun methods_loop ::
  "programContext \<Rightarrow> NodeClassMethod list \<Rightarrow> env \<Rightarrow> pyval list \<Rightarrow> exn + pyval list"
where
  "methods_loop ctx [] env errors = Inr errors"
| "methods_loop ctx (nodeClassMethod # rest) env errors =
     (case visit_NodeClassMethod ctx nodeClassMethod env of
        Inl ex \<Rightarrow> Inl ex
      | Inr r \<Rightarrow> methods_loop ctx rest env (if is_error r then errors @ [r] else errors))"

definition visit_NodeClass :: "programContext \<Rightarrow> NodeClass \<Rightarrow> env \<Rightarrow> exn + pyval list" where
  "visit_NodeClass ctx n previousEnv =
     (case attributes_loop ctx (attributes n) previousEnv [] of
        (Inl ex, env1) \<Rightarrow> Inl ex
      | (Inr errors, env1) \<Rightarrow> methods_loop ctx (methods n) env1 errors)"

text \<open>\<^verbatim>\<open>TypeCheckerVisitor.visit_NodeProgram\<close>.\<close>

fun program_loop :: "programContext \<Rightarrow> NodeClass list \<Rightarrow> pyval list \<Rightarrow> exn + pyval list" where
  "program_loop ctx [] errors = Inr errors"
| "program_loop ctx (nodeClass # rest) errors =
     (case visit_NodeClass ctx nodeClass (buildEnv ctx (class_idName nodeClass)) of
        Inl ex \<Rightarrow> Inl ex
      | Inr es \<Rightarrow> program_loop ctx rest (errors @ es))"

definition visit_NodeProgram :: "programContext \<Rightarrow> NodeProgram \<Rightarrow> exn + pyval list" where
  "visit_NodeProgram ctx n = program_loop ctx (class_list n) []"

subsection \<open>The registry\<close>

text \<open>
  Modelled from the spec: the entries of \<^verbatim>\<open>programContext.types\<close> are of a class of the
  missing module \<^verbatim>\<open>context\<close>. An entry has the parent name, the attributes with their
  types and the methods with their formal types and return type. The dictionary is an
  association list in insertion order.
\<close>

record ClassInfo =
  parent :: string
  attrs :: "(string \<times> string) list"
  meths :: "(string \<times> string list \<times> string) list"

type_synonym registry = "(string \<times> ClassInfo) list"

subsection \<open>Pass 1: \<^verbatim>\<open>TypeCollectorVisitor\<close>\<close>

text \<open>
  \<open>createType\<close> is \<^verbatim>\<open>programContext.createType\<close>, which \<^verbatim>\<open>visit_NodeClass\<close> calls: it
  returns a value and the registry as it leaves it. The loop carries \<^verbatim>\<open>errors\<close> and
  \<^verbatim>\<open>line_and_col\<close>.
\<close>

fun collector_loop ::
  "(NodeClass \<Rightarrow> registry \<Rightarrow> pyval \<times> registry) \<Rightarrow> NodeClass list \<Rightarrow> registry \<Rightarrow>
     pyval list \<Rightarrow> (string \<rightharpoonup> pos) \<Rightarrow> (pyval list \<times> (string \<rightharpoonup> pos)) \<times> registry"
where
  "collector_loop createType [] reg errors line_and_col = ((errors, line_and_col), reg)"
| "collector_loop createType (nodeClass # rest) reg errors line_and_col =
     (case createType nodeClass reg of
        (res, reg1) \<Rightarrow>
          collector_loop createType rest reg1
            (if truthy res then errors @ [res] else errors)
            (line_and_col(class_idName nodeClass \<mapsto> (class_line nodeClass, class_column nodeClass))))"

definition TypeCollector_visit_NodeProgram ::
  "(NodeClass \<Rightarrow> registry \<Rightarrow> pyval \<times> registry) \<Rightarrow> NodeProgram \<Rightarrow> registry \<Rightarrow>
     (pyval list \<times> (string \<rightharpoonup> pos)) \<times> registry"
where
  "TypeCollector_visit_NodeProgram createType n reg =
     collector_loop createType (class_list n) reg [] Map.empty"

subsection \<open>Pass 2: \<^verbatim>\<open>TypeInheritanceVisitor\<close>\<close>

text \<open>
  \<open>relateInheritance\<close> is \<^verbatim>\<open>programContext.relateInheritance\<close>; it may change entries of
  the registry but adds and removes none, so the loop runs over the names registered
  when it starts. \<^verbatim>\<open>programContext.types[_type]\<close> is read when the name's turn comes.
\<close>

definition visitForInherit ::
  "(string \<Rightarrow> string \<Rightarrow> pos \<Rightarrow> registry \<Rightarrow> pyval \<times> registry) \<Rightarrow> string \<Rightarrow> pos \<Rightarrow> registry \<Rightarrow>
     (exn + pyval) \<times> registry"
where
  "visitForInherit relateInheritance t line_and_col reg =
     (case map_of reg t of
        None \<Rightarrow> (Inl (KeyError t), reg)
      | Some info \<Rightarrow>
          (case relateInheritance t (parent info) line_and_col reg of
             (res, reg1) \<Rightarrow> (Inr res, reg1)))"

fun inheritance_loop ::
  "(string \<Rightarrow> string \<Rightarrow> pos \<Rightarrow> registry \<Rightarrow> pyval \<times> registry) \<Rightarrow> string list \<Rightarrow>
     (string \<rightharpoonup> pos) \<Rightarrow> registry \<Rightarrow> pyval list \<Rightarrow> (exn + pyval list) \<times> registry"
where
  "inheritance_loop relateInheritance [] line_and_col_dict reg errors = (Inr errors, reg)"
| "inheritance_loop relateInheritance (t # rest) line_and_col_dict reg errors =
     (if t \<noteq> ''Object'' then
        (case visitForInherit relateInheritance t
                (case line_and_col_dict t of None \<Rightarrow> (0, 0) | Some lc \<Rightarrow> lc) reg of
           (Inl ex, reg1) \<Rightarrow> (Inl ex, reg1)
         | (Inr res, reg1) \<Rightarrow>
             inheritance_loop relateInheritance rest line_and_col_dict reg1
               (if is_error res then errors @ [res] else errors))
      else inheritance_loop relateInheritance rest line_and_col_dict reg errors)"

definition TypeInheritance_visit_NodeProgram ::
  "(string \<Rightarrow> string \<Rightarrow> pos \<Rightarrow> registry \<Rightarrow> pyval \<times> registry) \<Rightarrow> NodeProgram \<Rightarrow>
     (string \<rightharpoonup> pos) \<Rightarrow> registry \<Rightarrow> (exn + pyval list) \<times> registry"
where
  "TypeInheritance_visit_NodeProgram relateInheritance n line_and_col_dict reg =
     inheritance_loop relateInheritance (map fst reg) line_and_col_dict reg []"

subsection \<open>A registry after the specification\<close>

text \<open>
  Modelled from the spec: the operations of \<^verbatim>\<open>programContext\<close> (module \<^verbatim>\<open>context\<close>, missing)
  as section 4.1 describes them. They are used to evaluate the visitors on concrete
  programs. Where the specification does not say what a check returns when it
  succeeds, \<^verbatim>\<open>None\<close> is returned by the operations that register something and the
  resulting type name by the checks of pass 4.
\<close>

text \<open>
  Modelled from the spec: the types registered before pass 1 (module \<^verbatim>\<open>context\<close>, missing):
  a root type with no members and the primitive types integer, boolean and string.
\<close>

definition builtin_types :: registry where
  "builtin_types =
     [(''Object'', \<lparr>parent = [], attrs = [], meths = []\<rparr>),
      (''Int'', \<lparr>parent = ''Object'', attrs = [], meths = []\<rparr>),
      (''Bool'', \<lparr>parent = ''Object'', attrs = [], meths = []\<rparr>),
      (''String'', \<lparr>parent = ''Object'', attrs = [], meths = []\<rparr>)]"

text \<open>
  Modelled from the spec: the primitive types are final leaf types.
\<close>

definition primitive :: "string \<Rightarrow> bool" where
  "primitive t = (t \<in> {''Int'', ''Bool'', ''String''})"

text \<open>
  Modelled from the spec: conformance. \<open>A\<close> conforms to \<open>B\<close> iff \<open>A\<close> equals \<open>B\<close> or \<open>B\<close> is an
  ancestor of \<open>A\<close> in the chain of \<^verbatim>\<open>parent\<close> links from \<open>A\<close> up to the root; the walk is cut
  after as many links as the registry has entries.
\<close>

fun ancestors :: "registry \<Rightarrow> nat \<Rightarrow> string \<Rightarrow> string list" where
  "ancestors reg 0 t = [t]"
| "ancestors reg (Suc n) t =
     t # (if t = ''Object'' then []
          else case map_of reg t of None \<Rightarrow> [] | Some info \<Rightarrow> ancestors reg n (parent info))"

definition conforms :: "registry \<Rightarrow> string \<Rightarrow> string \<Rightarrow> bool" where
  "conforms reg a b = (b \<in> set (ancestors reg (length reg) a))"

text \<open>
  Modelled from the spec: \<^verbatim>\<open>createType(decl)\<close> registers a new entry, with name and parent
  only; it fails with \<open>DuplicateType\<close> if the name already exists or is a reserved or
  primitive name (these are registered beforehand).
\<close>

definition spec_createType :: "NodeClass \<Rightarrow> registry \<Rightarrow> pyval \<times> registry" where
  "spec_createType decl reg =
     (if class_idName decl \<in> set (map fst reg)
      then (Err (Error DuplicateType (class_idName decl) (class_line decl, class_column decl)), reg)
      else (PyNone,
            reg @ [(class_idName decl, \<lparr>parent = class_parent decl, attrs = [], meths = []\<rparr>)]))"

text \<open>
  Modelled from the spec: \<^verbatim>\<open>relateInheritance(child, parentName, pos)\<close> records the parent
  edge; it fails with \<open>InvalidParent\<close> if the parent is unknown, is a primitive type, or
  the chain of parents from \<open>parentName\<close> reaches \<open>child\<close>.
\<close>

definition spec_relateInheritance ::
  "string \<Rightarrow> string \<Rightarrow> pos \<Rightarrow> registry \<Rightarrow> pyval \<times> registry" where
  "spec_relateInheritance child parentName p reg =
     (if parentName \<notin> set (map fst reg) \<or> primitive parentName
         \<or> child \<in> set (ancestors reg (length reg) parentName)
      then (Err (Error InvalidParent child p), reg)
      else (PyNone,
            map (\<lambda>(t, info). if t = child then (t, info\<lparr>parent := parentName\<rparr>) else (t, info)) reg))"

text \<open>
  Modelled from the spec: \<^verbatim>\<open>getType(name, pos)\<close> fails with \<open>UnknownType\<close> if the name is
  absent.
\<close>

definition spec_getType :: "registry \<Rightarrow> string \<Rightarrow> pos \<Rightarrow> pyval" where
  "spec_getType reg t p =
     (if t \<in> set (map fst reg) then Str t else Err (Error UnknownType t p))"

text \<open>
  Modelled from the spec: \<^verbatim>\<open>searchValue\<close> looks the name of a variable reference up in the
  current environment and fails with \<open>UnknownVariable\<close> if it is absent.
\<close>

fun spec_searchValue :: "node \<Rightarrow> env \<Rightarrow> pyval" where
  "spec_searchValue (NodeObject p x) env =
     (case env x of None \<Rightarrow> Err (Error UnknownVariable x p) | Some v \<Rightarrow> v)"
| "spec_searchValue n env = PyNone"

text \<open>
  Modelled from the spec: \<^verbatim>\<open>checkAssign\<close> requires the type of the expression to conform to
  the type of the binding, else \<open>TypeMismatch\<close>; for a plain assignment it fails with
  \<open>UnknownVariable\<close> if the target has no binding in the environment.
\<close>

fun spec_checkAssign :: "registry \<Rightarrow> string \<Rightarrow> pyval \<Rightarrow> pyval \<Rightarrow> pos \<Rightarrow> pyval" where
  "spec_checkAssign reg x (Str declared) (Str t) p =
     (if conforms reg t declared then Str declared else Err (Error TypeMismatch x p))"
| "spec_checkAssign reg x d v p = Err (Error TypeMismatch x p)"

fun spec_checkAssign3 :: "registry \<Rightarrow> node \<Rightarrow> pyval \<Rightarrow> env \<Rightarrow> pyval" where
  "spec_checkAssign3 reg (NodeAssignment p x e) v env =
     (case env x of
        None \<Rightarrow> Err (Error UnknownVariable x p)
      | Some d \<Rightarrow> spec_checkAssign reg x d v p)"
| "spec_checkAssign3 reg n v env = PyNone"

text \<open>
  Modelled from the spec: \<^verbatim>\<open>checkArithmetic\<close> requires both operand types to equal the
  integer type and yields that type, else \<open>TypeMismatch\<close>.
\<close>

definition spec_checkArithmetic :: "pyval \<Rightarrow> pyval \<Rightarrow> pos \<Rightarrow> pyval" where
  "spec_checkArithmetic a b p =
     (if a = Str ''Int'' \<and> b = Str ''Int'' then Str ''Int''
      else Err (Error TypeMismatch ''arithmetic'' p))"

text \<open>
  Modelled from the spec: \<^verbatim>\<open>checkEqualOp\<close> permits the comparison when both operand types
  are identical or neither is a primitive type, else \<open>IllegalComparison\<close>; the result is
  the boolean type.
\<close>

fun is_primitive_value :: "pyval \<Rightarrow> bool" where
  "is_primitive_value (Str t) = primitive t"
| "is_primitive_value v = False"

definition spec_checkEqualOp :: "pyval \<Rightarrow> pyval \<Rightarrow> pos \<Rightarrow> pyval" where
  "spec_checkEqualOp a b p =
     (if a = b \<or> (\<not> is_primitive_value a \<and> \<not> is_primitive_value b) then Str ''Bool''
      else Err (Error IllegalComparison ''equality'' p))"

text \<open>
  Modelled from the spec: \<^verbatim>\<open>checkDynamicDispatch\<close> validates that the type of the receiver or
  an ancestor declares a method of the name (\<open>UnknownMethod\<close>), that the arity matches
  (\<open>ArityMismatch\<close>) and that every argument type conforms to the formal type
  (\<open>ArgumentTypeMismatch\<close>); the result is the declared return type. \<open>find_method\<close> is the
  signature on the type or on the nearest ancestor that declares the method.
\<close>

fun find_method :: "registry \<Rightarrow> string list \<Rightarrow> string \<Rightarrow> (string list \<times> string) option" where
  "find_method reg [] m = None"
| "find_method reg (t # ts) m =
     (case map_of reg t of
        None \<Rightarrow> find_method reg ts m
      | Some info \<Rightarrow>
          (case map_of (meths info) m of
             None \<Rightarrow> find_method reg ts m
           | Some sg \<Rightarrow> Some sg))"

fun args_conform :: "registry \<Rightarrow> pyval list \<Rightarrow> string list \<Rightarrow> bool" where
  "args_conform reg [] [] = True"
| "args_conform reg (Str a # as) (f # fs) = (conforms reg a f \<and> args_conform reg as fs)"
| "args_conform reg as fs = False"

fun spec_checkDynamicDispatch ::
  "registry \<Rightarrow> pyval \<Rightarrow> string \<Rightarrow> pyval list \<Rightarrow> pos \<Rightarrow> pyval" where
  "spec_checkDynamicDispatch reg (Str t) m argTypes p =
     (case find_method reg (ancestors reg (length reg) t) m of
        None \<Rightarrow> Err (Error UnknownMethod m p)
      | Some (formals, ret) \<Rightarrow>
          if length formals \<noteq> length argTypes then Err (Error ArityMismatch m p)
          else if args_conform reg argTypes formals then Str ret
          else Err (Error ArgumentTypeMismatch m p))"
| "spec_checkDynamicDispatch reg v m argTypes p = Err (Error UnknownMethod m p)"

text \<open>
  Modelled from the spec: \<^verbatim>\<open>checkReturnType\<close> requires the type of the body to conform to the
  declared return type, else \<open>ReturnTypeMismatch\<close>.
\<close>

fun spec_checkReturnType :: "registry \<Rightarrow> NodeClassMethod \<Rightarrow> pyval \<Rightarrow> pyval" where
  "spec_checkReturnType reg n (Str t) =
     (if conforms reg t (returnType n) then Str (returnType n)
      else Err (Error ReturnTypeMismatch (method_idName n) (method_pos n)))"
| "spec_checkReturnType reg n v = Err (Error ReturnTypeMismatch (method_idName n) (method_pos n))"

text \<open>
  Modelled from the spec: \<^verbatim>\<open>buildEnvForMethod(methodDecl, env)\<close> extends \<open>env\<close> with the formal
  parameters and fails with \<open>DuplicateFormal\<close> if two formals share a name.
\<close>

fun extend_env :: "env \<Rightarrow> (string \<times> string) list \<Rightarrow> env" where
  "extend_env env [] = env"
| "extend_env env ((x, t) # rest) = extend_env (env(x \<mapsto> Str t)) rest"

definition spec_buildEnvForMethod :: "NodeClassMethod \<Rightarrow> env \<Rightarrow> error + env" where
  "spec_buildEnvForMethod n env =
     (if distinct (map fst (formal_param_list n)) then Inr (extend_env env (formal_param_list n))
      else Inl (Error DuplicateFormal (method_idName n) (method_pos n)))"

text \<open>
  Modelled from the spec: \<^verbatim>\<open>buildEnv(typeName)\<close> returns a fresh environment with the
  attributes visible on the type, the inherited ones first so that an own attribute
  takes precedence, and the binding of the type itself.
\<close>

fun visible_attrs :: "registry \<Rightarrow> string list \<Rightarrow> (string \<times> string) list" where
  "visible_attrs reg [] = []"
| "visible_attrs reg (t # ts) =
     visible_attrs reg ts @ (case map_of reg t of None \<Rightarrow> [] | Some info \<Rightarrow> attrs info)"

definition spec_buildEnv :: "registry \<Rightarrow> string \<Rightarrow> env" where
  "spec_buildEnv reg t =
     (extend_env Map.empty (visible_attrs reg (ancestors reg (length reg) t)))
       (''wrapperType'' \<mapsto> Str t)"

text \<open>
  Modelled from the spec: the object \<^verbatim>\<open>programContext\<close> of the missing module \<^verbatim>\<open>context\<close>,
  over a registry that passes 1 to 3 have filled.
\<close>

definition specContext :: "registry \<Rightarrow> programContext" where
  "specContext reg =
     \<lparr>getType = spec_getType reg,
      searchValue = spec_searchValue,
      checkAssign = spec_checkAssign reg,
      checkAssign3 = spec_checkAssign3 reg,
      checkArithmetic = spec_checkArithmetic,
      checkEqualOp = spec_checkEqualOp,
      checkDynamicDispatch = spec_checkDynamicDispatch reg,
      checkReturnType = spec_checkReturnType reg,
      buildEnvForMethod = spec_buildEnvForMethod,
      buildEnv = spec_buildEnv reg\<rparr>"

subsection \<open>Functions used to state the properties\<close>

text \<open>
  \<open>types_in_order ctx args env\<close>: every argument of \<open>args\<close>, checked from left to right in
  the environment its predecessor left, returns a value that is no diagnostic; the
  values in order, and the environment after the last argument.
\<close>

fun types_in_order :: "programContext \<Rightarrow> node list \<Rightarrow> env \<Rightarrow> (pyval list \<times> env) option" where
  "types_in_order ctx [] env = Some ([], env)"
| "types_in_order ctx (arg # rest) env =
     (case visit ctx arg env of
        (Inl ex, env1) \<Rightarrow> None
      | (Inr t, env1) \<Rightarrow>
          if is_error t then None
          else (case types_in_order ctx rest env1 of
                  None \<Rightarrow> None
                | Some (ts, env2) \<Rightarrow> Some (t # ts, env2)))"




fun diagnostics_of :: "result list \<Rightarrow> pyval list" where
  "diagnostics_of [] = []"
| "diagnostics_of (Inr v # rs) = (if is_error v then v # diagnostics_of rs else diagnostics_of rs)"
| "diagnostics_of (Inl ex # rs) = diagnostics_of rs"

fun raised :: "result \<Rightarrow> bool" where
  "raised (Inl ex) = True"
| "raised (Inr v) = False"



text \<open>
  What \<open>createType\<close> returns for each class of a list, the registry passed on from one
  class to the next, and the position of the last declaration of a name.
\<close>

fun createType_results ::
  "(NodeClass \<Rightarrow> registry \<Rightarrow> pyval \<times> registry) \<Rightarrow> NodeClass list \<Rightarrow> registry \<Rightarrow> pyval list" where
  "createType_results createType [] reg = []"
| "createType_results createType (c # cs) reg =
     fst (createType c reg) # createType_results createType cs (snd (createType c reg))"

definition recorded_position :: "NodeClass list \<Rightarrow> string \<rightharpoonup> pos" where
  "recorded_position cs x =
     map_option (\<lambda>d. (class_line d, class_column d)) (List.find (\<lambda>d. class_idName d = x) (rev cs))"

text \<open>
  The calls of \<open>relateInheritance\<close> for a list of type names: the arguments of each call
  (name, parent, position) with what the call returns, the registry passed on from
  one call to the next.
\<close>

fun relate_calls ::
  "(string \<Rightarrow> string \<Rightarrow> pos \<Rightarrow> registry \<Rightarrow> pyval \<times> registry) \<Rightarrow> string list \<Rightarrow>
     (string \<rightharpoonup> pos) \<Rightarrow> registry \<Rightarrow> ((string \<times> string \<times> pos) \<times> pyval) list" where
  "relate_calls rel [] lc reg = []"
| "relate_calls rel (t # ts) lc reg =
     (case map_of reg t of
        None \<Rightarrow> []
      | Some info \<Rightarrow>
          (let q = (case lc t of None \<Rightarrow> (0, 0) | Some p \<Rightarrow> p)
           in ((t, parent info, q), fst (rel t (parent info) q reg))
                # relate_calls rel ts lc (snd (rel t (parent info) q reg))))"

subsection \<open>A program to evaluate the visitors on\<close>

text \<open>
  A registry with the class \<^verbatim>\<open>Main\<close> (attribute \<^verbatim>\<open>n : Int\<close>, method \<^verbatim>\<open>inc(k : Int) : Int\<close>),
  the environment of that class, and the expression
  \<^verbatim>\<open>let a: Int <- 1, b: Int <- a + 1 in b\<close>.
\<close>

definition example_types :: registry where
  "example_types =
     builtin_types @
       [(''Main'', \<lparr>parent = ''Object'', attrs = [(''n'', ''Int'')],
                    meths = [(''inc'', [''Int''], ''Int'')]\<rparr>)]"

definition example_env :: env where
  "example_env = Map.empty(''n'' \<mapsto> Str ''Int'', ''wrapperType'' \<mapsto> Str ''Main'')"

definition let_chain :: node where
  "let_chain =
     NodeLetComplex (1, 1)
       [NodeLet (1, 5) ''a'' ''Int'' (NodeInteger (1, 19)),
        NodeLet (1, 22) ''b'' ''Int''
          (NodeBinaryOperation NodeAddition (1, 36) (NodeObject (1, 34) ''a'') (NodeInteger (1, 38)))]
       (NodeObject (1, 43) ''b'')"

definition inc_method :: NodeClassMethod where
  "inc_method =
     \<lparr>method_idName = ''inc'', formal_param_list = [(''k'', ''Int'')], returnType = ''Int'',
      method_body =
        NodeBinaryOperation NodeAddition (4, 9) (NodeObject (4, 7) ''k'') (NodeInteger (4, 11)),
      method_pos = (4, 3)\<rparr>"

definition bad_method :: NodeClassMethod where
  "bad_method =
     \<lparr>method_idName = ''bad'', formal_param_list = [], returnType = ''Int'',
      method_body = NodeString (5, 7), method_pos = (5, 3)\<rparr>"

definition dup_method :: NodeClassMethod where
  "dup_method =
     \<lparr>method_idName = ''dup'', formal_param_list = [(''k'', ''Int''), (''k'', ''Bool'')],
      returnType = ''Int'', method_body = NodeOther ''NodeIf'' (6, 7), method_pos = (6, 3)\<rparr>"

definition example_class :: NodeClass where
  "example_class =
     \<lparr>class_idName = ''Main'', class_parent = ''Object'', class_line = 1, class_column = 1,
      attributes =
        [\<lparr>attr_idName = ''n'', attr_type = ''Int'', attr_expr = NodeObject (2, 12) ''undefined'',
          attr_pos = (2, 3)\<rparr>,
         \<lparr>attr_idName = ''s'', attr_type = ''String'', attr_expr = NodeString (3, 15),
          attr_pos = (3, 3)\<rparr>],
      methods = [bad_method, inc_method]\<rparr>"

text \<open>
  A class whose first initializer is a single let and whose second reads the variable of
  that let, a class whose first initializer is of a class without a visitor method, and
  the argument \<^verbatim>\<open>1 < 2\<close>, a binary operation that the visitor does not name.
\<close>

definition threaded_class :: NodeClass where
  "threaded_class =
     \<lparr>class_idName = ''Main'', class_parent = ''Object'', class_line = 1, class_column = 1,
      attributes =
        [\<lparr>attr_idName = ''t'', attr_type = ''Int'',
          attr_expr = NodeLet (2, 12) ''y'' ''Int'' (NodeInteger (2, 26)), attr_pos = (2, 3)\<rparr>,
         \<lparr>attr_idName = ''u'', attr_type = ''Int'', attr_expr = NodeObject (3, 12) ''y'',
          attr_pos = (3, 3)\<rparr>],
      methods = []\<rparr>"

definition raising_class :: NodeClass where
  "raising_class =
     \<lparr>class_idName = ''Main'', class_parent = ''Object'', class_line = 1, class_column = 1,
      attributes =
        [\<lparr>attr_idName = ''a'', attr_type = ''Int'', attr_expr = NodeOther ''NodeIf'' (2, 12),
          attr_pos = (2, 3)\<rparr>,
         \<lparr>attr_idName = ''b'', attr_type = ''Int'', attr_expr = NodeObject (3, 12) ''undefined'',
          attr_pos = (3, 3)\<rparr>],
      methods = []\<rparr>"

definition none_argument :: node where
  "none_argument =
     NodeBinaryOperation (NodeBinaryOther ''NodeLessThan'') (8, 12)
       (NodeInteger (8, 10)) (NodeInteger (8, 14))"

text \<open>
  Three classes \<^verbatim>\<open>A\<close>, \<^verbatim>\<open>Int\<close> and \<^verbatim>\<open>B inherits Undefined\<close>, the registry after pass 1 (the
  class \<^verbatim>\<open>Int\<close> is refused) and the positions that pass 1 records.
\<close>

definition example_program :: NodeProgram where
  "example_program =
     \<lparr>class_list =
        [\<lparr>class_idName = ''A'', class_parent = ''Object'', class_line = 1, class_column = 1,
          attributes = [], methods = []\<rparr>,
         \<lparr>class_idName = ''Int'', class_parent = ''Object'', class_line = 5, class_column = 1,
          attributes = [], methods = []\<rparr>,
         \<lparr>class_idName = ''B'', class_parent = ''Undefined'', class_line = 9, class_column = 1,
          attributes = [], methods = []\<rparr>]\<rparr>"

definition collected_types :: registry where
  "collected_types =
     builtin_types @
       [(''A'', \<lparr>parent = ''Object'', attrs = [], meths = []\<rparr>),
        (''B'', \<lparr>parent = ''Undefined'', attrs = [], meths = []\<rparr>)]"

definition collected_positions :: "string \<rightharpoonup> pos" where
  "collected_positions = Map.empty(''A'' \<mapsto> (1, 1), ''Int'' \<mapsto> (5, 1), ''B'' \<mapsto> (9, 1))"

section \<open>Properties\<close>

lemmas example_defs =
  specContext_def spec_getType_def spec_checkArithmetic_def spec_checkEqualOp_def
  spec_buildEnvForMethod_def spec_buildEnv_def conforms_def primitive_def
  builtin_types_def example_types_def example_env_def
  inc_method_def bad_method_def dup_method_def example_class_def example_program_def
  collected_types_def collected_positions_def
  threaded_class_def raising_class_def none_argument_def

subsection \<open>Binary operations\<close>

text \<open>
  C1 fails on the code. \<^verbatim>\<open>visit_NodeBinaryOperation\<close> visits the second operand before it
  tests whether the first returned a diagnostic, where every other visitor method tests
  a result before it goes on. In \<^verbatim>\<open>x + (if ...)\<close> with \<^verbatim>\<open>x\<close> unbound, the first operand
  returns the diagnostic for \<^verbatim>\<open>x\<close>, and the node raises the exception of the second
  operand instead of returning that diagnostic; in \<^verbatim>\<open>x + (let y: Int <- 1)\<close> the binding of
  \<^verbatim>\<open>y\<close> made by the second operand is in the environment afterwards.
\<close>

theorem binary_evaluates_both:
  "visit (specContext example_types) (NodeObject (1, 1) ''x'') example_env =
     (Inr (Err (Error UnknownVariable ''x'' (1, 1))), example_env)
 \<and> visit (specContext example_types)
      (NodeBinaryOperation NodeAddition (1, 3) (NodeObject (1, 1) ''x'') (NodeOther ''NodeIf'' (1, 5)))
      example_env =
     (Inl (Exception ''Not implemented visit_NodeIf method''), example_env)
 \<and> visit (specContext example_types)
      (NodeBinaryOperation NodeAddition (1, 3) (NodeObject (1, 1) ''x'')
         (NodeLet (1, 5) ''y'' ''Int'' (NodeInteger (1, 18))))
      example_env =
     (Inr (Err (Error UnknownVariable ''x'' (1, 1))), example_env(''y'' \<mapsto> Str ''Int''))"
  by (simp add: example_defs not_implemented_def)

text \<open>
  C3. A binary operation of a class other than addition, subtraction, multiplication,
  division and equality, whose operands both return a value that is no diagnostic,
  returns \<^verbatim>\<open>None\<close>: neither a type name nor a diagnostic.
\<close>

theorem binary_other_kind_returns_None:
  assumes "k \<notin> {NodeAddition, NodeSubtraction, NodeMultiplication, NodeDivision, NodeEqual}"
    and "visit ctx a env = (Inr t1, env1)" and "\<not> is_error t1"
    and "visit ctx b env1 = (Inr t2, env2)" and "\<not> is_error t2"
  shows "visit ctx (NodeBinaryOperation k p a b) env = (Inr PyNone, env2)"
  using assms by simp

theorem binary_other_kind_returns_None_witness:
  "NodeBinaryOther ''NodeLessThan''
     \<notin> {NodeAddition, NodeSubtraction, NodeMultiplication, NodeDivision, NodeEqual}
 \<and> visit (specContext example_types) (NodeInteger (1, 1)) example_env
     = (Inr (Str ''Int''), example_env)
 \<and> \<not> is_error (Str ''Int'')
 \<and> visit (specContext example_types)
      (NodeBinaryOperation (NodeBinaryOther ''NodeLessThan'') (1, 3)
         (NodeInteger (1, 1)) (NodeInteger (1, 5))) example_env
     = (Inr PyNone, example_env)"
proof -
  have k: "NodeBinaryOther ''NodeLessThan''
     \<notin> {NodeAddition, NodeSubtraction, NodeMultiplication, NodeDivision, NodeEqual}"
    by simp
  have a: "visit (specContext example_types) (NodeInteger (1, 1)) example_env
     = (Inr (Str ''Int''), example_env)"
    by simp
  have b: "visit (specContext example_types) (NodeInteger (1, 5)) example_env
     = (Inr (Str ''Int''), example_env)"
    by simp
  have e: "\<not> is_error (Str ''Int'')" by simp
  from binary_other_kind_returns_None [OF k a e b e, of "(1, 3)"] k a e
  show ?thesis by blast
qed

subsection \<open>Let\<close>

text \<open>
  C2 fails on the code. \<^verbatim>\<open>visit_NodeLetComplex\<close> copies the environment of the caller anew
  for every binding of the chain, so the binding of \<^verbatim>\<open>a\<close> is gone when the initializer of
  \<^verbatim>\<open>b\<close> is checked: with \<^verbatim>\<open>a\<close> unbound in the caller's environment,
  \<^verbatim>\<open>let a: Int <- 1, b: Int <- a + 1 in b\<close> returns the diagnostic for the unknown variable
  \<^verbatim>\<open>a\<close>, not the integer type.
\<close>

theorem let_chain_loses_sibling:
  "visit (specContext example_types) let_chain example_env =
     (Inr (Err (Error UnknownVariable ''a'' (1, 34))), example_env)"
  by (simp add: let_chain_def example_defs)

text \<open>
  C10. Checking a chained let leaves the environment of the caller as it was, whatever
  the chain returns or raises; checking a single let whose initializer returns a value
  that is no diagnostic adds its binding, with the declared type, to the environment it
  was given.
\<close>

theorem let_env:
  "snd (visit ctx (NodeLetComplex p ls e) env) = env
 \<and> (visit ctx b env = (Inr t, env1) \<and> \<not> is_error t \<longrightarrow>
      snd (visit ctx (NodeLet q x ty b) env) = env1(x \<mapsto> Str ty))"
  by (simp split: sum.splits option.splits)

theorem let_env_witness:
  "snd (visit (specContext example_types) let_chain example_env) = example_env
 \<and> visit (specContext example_types) (NodeInteger (1, 19)) example_env
      = (Inr (Str ''Int''), example_env)
 \<and> \<not> is_error (Str ''Int'')
 \<and> snd (visit (specContext example_types) (NodeLet (1, 5) ''a'' ''Int'' (NodeInteger (1, 19)))
          example_env) = example_env(''a'' \<mapsto> Str ''Int'')"
proof -
  have a: "visit (specContext example_types) (NodeInteger (1, 19)) example_env
      = (Inr (Str ''Int''), example_env)" by simp
  have e: "\<not> is_error (Str ''Int'')" by simp
  from let_env [of "specContext example_types" "(1, 1)" _ _ example_env "NodeInteger (1, 19)"
      "Str ''Int''" example_env "(1, 5)" "''a''" "''Int''"] a e
  show ?thesis unfolding let_chain_def by blast
qed

subsection \<open>Dynamic dispatch\<close>

lemma arguments_loop_prefix:
  "types_in_order ctx as env = Some (ts, env2) \<Longrightarrow>
   arguments_loop ctx (as @ rest) env acc = arguments_loop ctx rest env2 (acc @ ts)"
proof (induction as arbitrary: env ts acc)
  case Nil
  then show ?case by simp
next
  case (Cons a as)
  then show ?case
    by (auto split: prod.splits sum.splits if_splits option.splits)
qed

lemma types_in_order_None:
  "types_in_order ctx args env1 = None \<Longrightarrow>
   \<exists>as a bs ts env2 r env3. args = as @ a # bs \<and> types_in_order ctx as env1 = Some (ts, env2)
      \<and> visit ctx a env2 = (r, env3) \<and> (raised r \<or> (\<exists>d. r = Inr (Err d)))"
proof (induction args arbitrary: env1)
  case Nil
  then show ?case by simp
next
  case (Cons a args)
  obtain r e' where v: "visit ctx a env1 = (r, e')"
    by (cases "visit ctx a env1")
  show ?case
  proof (cases "raised r \<or> (\<exists>d. r = Inr (Err d))")
    case True
    with v have "a # args = [] @ a # args \<and> types_in_order ctx [] env1 = Some ([], env1)
        \<and> visit ctx a env1 = (r, e') \<and> (raised r \<or> (\<exists>d. r = Inr (Err d)))"
      by simp
    then show ?thesis by blast
  next
    case False
    then obtain t where t: "r = Inr t" "\<not> is_error t"
      by (cases r) (auto elim: is_error.elims)
    with Cons.prems v have "types_in_order ctx args e' = None"
      by (simp split: option.splits prod.splits)
    from Cons.IH [OF this] obtain as b bs ts env2 r' env3 where
      h: "args = as @ b # bs" "types_in_order ctx as e' = Some (ts, env2)"
         "visit ctx b env2 = (r', env3)" "raised r' \<or> (\<exists>d. r' = Inr (Err d))"
      by blast
    with v t have "a # args = (a # as) @ b # bs
        \<and> types_in_order ctx (a # as) env1 = Some (t # ts, env2)
        \<and> visit ctx b env2 = (r', env3) \<and> (raised r' \<or> (\<exists>d. r' = Inr (Err d)))"
      by simp
    then show ?thesis by blast
  qed
qed

text \<open>
  C4, as the code has it. In a dynamic dispatch the receiver is checked first: an
  exception or a diagnostic of the receiver is the result, whatever the arguments are.
  The arguments are then checked from left to right: when the arguments before \<open>a\<close>
  return values that are no diagnostics and \<open>a\<close> raises or returns a diagnostic, that
  exception or diagnostic is the result, whatever arguments \<open>bs\<close> come after \<open>a\<close>. When the
  receiver and all arguments return values that are no diagnostics (type names, or
  \<^verbatim>\<open>None\<close>), the node returns what \<^verbatim>\<open>checkDynamicDispatch\<close> returns for the value of the
  receiver, the method name, the values of the arguments in order and the position of
  the node. These cases are all there are: a list of arguments of which not all return
  such values has a first argument that raises or returns a diagnostic.
\<close>

theorem dispatch_order:
  "(visit ctx e env = (Inl ex, env1) \<longrightarrow>
      visit ctx (NodeDynamicDispatch p e m args) env = (Inl ex, env1))
 \<and> (visit ctx e env = (Inr (Err d), env1) \<longrightarrow>
      visit ctx (NodeDynamicDispatch p e m args) env = (Inr (Err d), env1))
 \<and> (visit ctx e env = (Inr t, env1) \<and> \<not> is_error t
      \<and> types_in_order ctx as env1 = Some (ts, env2)
      \<and> visit ctx a env2 = (Inl ex, env3) \<longrightarrow>
      visit ctx (NodeDynamicDispatch p e m (as @ a # bs)) env = (Inl ex, env3))
 \<and> (visit ctx e env = (Inr t, env1) \<and> \<not> is_error t
      \<and> types_in_order ctx as env1 = Some (ts, env2)
      \<and> visit ctx a env2 = (Inr (Err d), env3) \<longrightarrow>
      visit ctx (NodeDynamicDispatch p e m (as @ a # bs)) env = (Inr (Err d), env3))
 \<and> (visit ctx e env = (Inr t, env1) \<and> \<not> is_error t
      \<and> types_in_order ctx args env1 = Some (ts, env2) \<longrightarrow>
      visit ctx (NodeDynamicDispatch p e m args) env =
        (Inr (checkDynamicDispatch ctx t m ts p), env2))
 \<and> (types_in_order ctx args env1 = None \<longrightarrow>
      (\<exists>as a bs ts env2 r env3. args = as @ a # bs
         \<and> types_in_order ctx as env1 = Some (ts, env2)
         \<and> visit ctx a env2 = (r, env3) \<and> (raised r \<or> (\<exists>d. r = Inr (Err d)))))"
proof (intro conjI impI)
  assume "visit ctx e env = (Inl ex, env1)"
  then show "visit ctx (NodeDynamicDispatch p e m args) env = (Inl ex, env1)"
    by simp
next
  assume "visit ctx e env = (Inr (Err d), env1)"
  then show "visit ctx (NodeDynamicDispatch p e m args) env = (Inr (Err d), env1)"
    by simp
next
  assume h: "visit ctx e env = (Inr t, env1) \<and> \<not> is_error t
      \<and> types_in_order ctx as env1 = Some (ts, env2)
      \<and> visit ctx a env2 = (Inl ex, env3)"
  then have "arguments_loop ctx (as @ a # bs) env1 [] = arguments_loop ctx (a # bs) env2 ([] @ ts)"
    using arguments_loop_prefix by blast
  with h show "visit ctx (NodeDynamicDispatch p e m (as @ a # bs)) env = (Inl ex, env3)"
    by simp
next
  assume h: "visit ctx e env = (Inr t, env1) \<and> \<not> is_error t
      \<and> types_in_order ctx as env1 = Some (ts, env2)
      \<and> visit ctx a env2 = (Inr (Err d), env3)"
  then have "arguments_loop ctx (as @ a # bs) env1 [] = arguments_loop ctx (a # bs) env2 ([] @ ts)"
    using arguments_loop_prefix by blast
  with h show "visit ctx (NodeDynamicDispatch p e m (as @ a # bs)) env = (Inr (Err d), env3)"
    by simp
next
  assume h: "visit ctx e env = (Inr t, env1) \<and> \<not> is_error t
      \<and> types_in_order ctx args env1 = Some (ts, env2)"
  then have "arguments_loop ctx (args @ []) env1 [] = arguments_loop ctx [] env2 ([] @ ts)"
    using arguments_loop_prefix by blast
  with h show "visit ctx (NodeDynamicDispatch p e m args) env =
        (Inr (checkDynamicDispatch ctx t m ts p), env2)"
    by simp
next
  assume "types_in_order ctx args env1 = None"
  then show "\<exists>as a bs ts env2 r env3. args = as @ a # bs
         \<and> types_in_order ctx as env1 = Some (ts, env2)
         \<and> visit ctx a env2 = (r, env3) \<and> (raised r \<or> (\<exists>d. r = Inr (Err d)))"
    by (rule types_in_order_None)
qed

theorem dispatch_order_witness:
  "visit (specContext example_types) (NodeOther ''NodeIf'' (6, 1)) example_env
     = (Inl (Exception ''Not implemented visit_NodeIf method''), example_env)
 \<and> visit (specContext example_types)
      (NodeDynamicDispatch (6, 2) (NodeOther ''NodeIf'' (6, 1)) ''inc'' [NodeInteger (6, 7)])
      example_env
     = (Inl (Exception ''Not implemented visit_NodeIf method''), example_env)
 \<and> visit (specContext example_types) (NodeObject (7, 1) ''x'') example_env
     = (Inr (Err (Error UnknownVariable ''x'' (7, 1))), example_env)
 \<and> visit (specContext example_types)
      (NodeDynamicDispatch (7, 2) (NodeObject (7, 1) ''x'') ''inc'' [NodeOther ''NodeIf'' (7, 7)])
      example_env
     = (Inr (Err (Error UnknownVariable ''x'' (7, 1))), example_env)
 \<and> visit (specContext example_types) (NodeSelf (8, 1)) example_env
     = (Inr (Str ''Main''), example_env)
 \<and> \<not> is_error (Str ''Main'')
 \<and> types_in_order (specContext example_types) [NodeInteger (8, 10)] example_env
     = Some ([Str ''Int''], example_env)
 \<and> visit (specContext example_types)
      (NodeDynamicDispatch (8, 5) (NodeSelf (8, 1)) ''inc''
         ([NodeInteger (8, 10)] @ NodeOther ''NodeIf'' (8, 13) # [NodeObject (8, 16) ''y'']))
      example_env
     = (Inl (Exception ''Not implemented visit_NodeIf method''), example_env)
 \<and> visit (specContext example_types) (NodeObject (8, 13) ''y'') example_env
     = (Inr (Err (Error UnknownVariable ''y'' (8, 13))), example_env)
 \<and> visit (specContext example_types)
      (NodeDynamicDispatch (8, 5) (NodeSelf (8, 1)) ''inc''
         ([NodeInteger (8, 10)] @ NodeObject (8, 13) ''y'' # [NodeOther ''NodeIf'' (8, 16)]))
      example_env
     = (Inr (Err (Error UnknownVariable ''y'' (8, 13))), example_env)
 \<and> visit (specContext example_types)
      (NodeDynamicDispatch (8, 5) (NodeSelf (8, 1)) ''inc'' [NodeInteger (8, 10)]) example_env
     = (Inr (Str ''Int''), example_env)
 \<and> types_in_order (specContext example_types)
      [NodeInteger (8, 10), NodeObject (8, 13) ''y''] example_env = None
 \<and> (\<exists>as a bs ts env2 r env3. [NodeInteger (8, 10), NodeObject (8, 13) ''y''] = as @ a # bs
       \<and> types_in_order (specContext example_types) as example_env = Some (ts, env2)
       \<and> visit (specContext example_types) a env2 = (r, env3)
       \<and> (raised r \<or> (\<exists>d. r = Inr (Err d))))"
proof -
  let ?C = "specContext example_types"
  have r0: "visit ?C (NodeOther ''NodeIf'' (6, 1)) example_env
     = (Inl (Exception ''Not implemented visit_NodeIf method''), example_env)"
    by (simp add: not_implemented_def)
  have r1: "visit ?C (NodeObject (7, 1) ''x'') example_env
     = (Inr (Err (Error UnknownVariable ''x'' (7, 1))), example_env)"
    by (simp add: example_defs)
  have r2: "visit ?C (NodeSelf (8, 1)) example_env = (Inr (Str ''Main''), example_env)"
    by (simp add: example_defs)
  have e: "\<not> is_error (Str ''Main'')" by simp
  have ts: "types_in_order ?C [NodeInteger (8, 10)] example_env = Some ([Str ''Int''], example_env)"
    by simp
  have a1: "visit ?C (NodeOther ''NodeIf'' (8, 13)) example_env
     = (Inl (Exception ''Not implemented visit_NodeIf method''), example_env)"
    by (simp add: not_implemented_def)
  have a2: "visit ?C (NodeObject (8, 13) ''y'') example_env
     = (Inr (Err (Error UnknownVariable ''y'' (8, 13))), example_env)"
    by (simp add: example_defs)
  have c: "checkDynamicDispatch ?C (Str ''Main'') ''inc'' [Str ''Int''] (8, 5) = Str ''Int''"
    by (simp add: example_defs)
  have n: "types_in_order ?C [NodeInteger (8, 10), NodeObject (8, 13) ''y''] example_env = None"
    by (simp add: example_defs)
  from dispatch_order [where ctx = ?C and e = "NodeOther ''NodeIf'' (6, 1)" and env = example_env
      and ex = "Exception ''Not implemented visit_NodeIf method''" and ?env1.0 = example_env
      and p = "(6, 2)" and m = "''inc''" and args = "[NodeInteger (6, 7)]"] r0
  have d0: "visit ?C
      (NodeDynamicDispatch (6, 2) (NodeOther ''NodeIf'' (6, 1)) ''inc'' [NodeInteger (6, 7)])
      example_env
     = (Inl (Exception ''Not implemented visit_NodeIf method''), example_env)"
    by blast
  from dispatch_order [where ctx = ?C and e = "NodeObject (7, 1) ''x''" and env = example_env
      and d = "Error UnknownVariable ''x'' (7, 1)" and ?env1.0 = example_env and p = "(7, 2)"
      and m = "''inc''" and args = "[NodeOther ''NodeIf'' (7, 7)]"] r1
  have d1: "visit ?C
      (NodeDynamicDispatch (7, 2) (NodeObject (7, 1) ''x'') ''inc'' [NodeOther ''NodeIf'' (7, 7)])
      example_env
     = (Inr (Err (Error UnknownVariable ''x'' (7, 1))), example_env)"
    by blast
  from dispatch_order [where ctx = ?C and e = "NodeSelf (8, 1)" and env = example_env
      and t = "Str ''Main''" and ?env1.0 = example_env and p = "(8, 5)" and m = "''inc''"
      and as = "[NodeInteger (8, 10)]" and ts = "[Str ''Int'']" and ?env2.0 = example_env
      and a = "NodeOther ''NodeIf'' (8, 13)"
      and ex = "Exception ''Not implemented visit_NodeIf method''"
      and ?env3.0 = example_env and bs = "[NodeObject (8, 16) ''y'']"] r2 e ts a1
  have d3: "visit ?C
      (NodeDynamicDispatch (8, 5) (NodeSelf (8, 1)) ''inc''
         ([NodeInteger (8, 10)] @ NodeOther ''NodeIf'' (8, 13) # [NodeObject (8, 16) ''y'']))
      example_env
     = (Inl (Exception ''Not implemented visit_NodeIf method''), example_env)"
    by blast
  note d2 = dispatch_order [where ctx = ?C and e = "NodeSelf (8, 1)" and env = example_env
      and t = "Str ''Main''" and ?env1.0 = example_env and p = "(8, 5)" and m = "''inc''"
      and as = "[NodeInteger (8, 10)]" and ts = "[Str ''Int'']" and ?env2.0 = example_env
      and a = "NodeObject (8, 13) ''y''" and d = "Error UnknownVariable ''y'' (8, 13)"
      and ?env3.0 = example_env and bs = "[NodeOther ''NodeIf'' (8, 16)]"
      and args = "[NodeInteger (8, 10)]"]
  from d2 [THEN conjunct2, THEN conjunct2, THEN conjunct2, THEN conjunct1] r2 e ts a2
  have d4: "visit ?C
      (NodeDynamicDispatch (8, 5) (NodeSelf (8, 1)) ''inc''
         ([NodeInteger (8, 10)] @ NodeObject (8, 13) ''y'' # [NodeOther ''NodeIf'' (8, 16)]))
      example_env
     = (Inr (Err (Error UnknownVariable ''y'' (8, 13))), example_env)"
    by blast
  from d2 [THEN conjunct2, THEN conjunct2, THEN conjunct2, THEN conjunct2, THEN conjunct1]
    r2 e ts
  have "visit ?C
      (NodeDynamicDispatch (8, 5) (NodeSelf (8, 1)) ''inc'' [NodeInteger (8, 10)]) example_env
     = (Inr (checkDynamicDispatch ?C (Str ''Main'') ''inc'' [Str ''Int''] (8, 5)), example_env)"
    by blast
  with c have d5: "visit ?C
      (NodeDynamicDispatch (8, 5) (NodeSelf (8, 1)) ''inc'' [NodeInteger (8, 10)]) example_env
     = (Inr (Str ''Int''), example_env)"
    by (simp only:)
  from dispatch_order [where ctx = ?C and ?env1.0 = example_env
      and args = "[NodeInteger (8, 10), NodeObject (8, 13) ''y'']",
      THEN conjunct2, THEN conjunct2, THEN conjunct2, THEN conjunct2, THEN conjunct2, rule_format, OF n]
  have d6: "\<exists>as a bs ts env2 r env3. [NodeInteger (8, 10), NodeObject (8, 13) ''y''] = as @ a # bs
       \<and> types_in_order ?C as example_env = Some (ts, env2)
       \<and> visit ?C a env2 = (r, env3)
       \<and> (raised r \<or> (\<exists>d. r = Inr (Err d)))" .
  show ?thesis
    by (intro conjI) (fact r0 d0 r1 d1 r2 e ts d3 a2 d4 d5 n d6)+
qed

text \<open>
  C4, as stated, fails: the validity check is also invoked when an argument returns
  \<^verbatim>\<open>None\<close>, which is no type. The argument \<^verbatim>\<open>1 < 2\<close> returns \<^verbatim>\<open>None\<close>, and the dispatch
  returns what \<^verbatim>\<open>checkDynamicDispatch\<close> makes of the argument list \<^verbatim>\<open>[None]\<close>.
\<close>

theorem dispatch_checks_None:
  "visit (specContext example_types) none_argument example_env = (Inr PyNone, example_env)
 \<and> visit (specContext example_types)
      (NodeDynamicDispatch (8, 5) (NodeSelf (8, 1)) ''inc'' [none_argument]) example_env
     = (Inr (checkDynamicDispatch (specContext example_types) (Str ''Main'') ''inc'' [PyNone] (8, 5)),
        example_env)
 \<and> checkDynamicDispatch (specContext example_types) (Str ''Main'') ''inc'' [PyNone] (8, 5)
     = Err (Error ArgumentTypeMismatch ''inc'' (8, 5))"
  by (simp add: example_defs)

subsection \<open>Methods and classes\<close>





lemma diagnostics_of_append:
  "diagnostics_of (xs @ ys) = diagnostics_of xs @ diagnostics_of ys"
  by (induction xs rule: diagnostics_of.induct) simp_all













subsection \<open>Pass 1\<close>

lemma find_snoc:
  "List.find P (xs @ [y]) =
     (case List.find P xs of None \<Rightarrow> (if P y then Some y else None) | Some x \<Rightarrow> Some x)"
  by (induction xs) simp_all

lemma recorded_position_Cons:
  "recorded_position (c # cs) x =
     (case recorded_position cs x of
        None \<Rightarrow> (if class_idName c = x then Some (class_line c, class_column c) else None)
      | Some p \<Rightarrow> Some p)"
  by (simp add: recorded_position_def find_snoc split: option.splits)

lemma collector_loop_results:
  "fst (collector_loop createType cs reg errors lc) =
     (errors @ filter truthy (createType_results createType cs reg),
      (\<lambda>x. case recorded_position cs x of None \<Rightarrow> lc x | Some p \<Rightarrow> Some p))"
proof (induction cs arbitrary: reg errors lc)
  case Nil
  then show ?case by (simp add: recorded_position_def)
next
  case (Cons c cs)
  obtain res reg1 where c: "createType c reg = (res, reg1)"
    by (cases "createType c reg")
  have m: "(\<lambda>x. case recorded_position cs x of
                 None \<Rightarrow> (lc(class_idName c \<mapsto> (class_line c, class_column c))) x
               | Some p \<Rightarrow> Some p)
         = (\<lambda>x. case recorded_position (c # cs) x of None \<Rightarrow> lc x | Some p \<Rightarrow> Some p)"
    by (rule ext) (simp add: recorded_position_Cons split: option.splits)
  show ?case
    using c by (simp add: Cons.IH m del: fun_upd_apply)
qed

lemma length_createType_results:
  "length (createType_results createType cs reg) = length cs"
  by (induction cs arbitrary: reg) simp_all

lemma dom_recorded_position: "dom (recorded_position cs) = class_idName ` set cs"
proof (induction cs)
  case Nil
  then show ?case by (simp add: recorded_position_def dom_def)
next
  case (Cons c cs)
  have "dom (recorded_position (c # cs)) = insert (class_idName c) (dom (recorded_position cs))"
    by (auto simp: recorded_position_Cons dom_def split: option.splits if_splits)
  with Cons show ?case by simp
qed

lemma recorded_position_distinct:
  "distinct (map class_idName cs) \<Longrightarrow> c \<in> set cs \<Longrightarrow>
   recorded_position cs (class_idName c) = Some (class_line c, class_column c)"
proof (induction cs)
  case Nil
  then show ?case by simp
next
  case (Cons d cs)
  show ?case
  proof (cases "c \<in> set cs")
    case True
    with Cons show ?thesis by (simp add: recorded_position_Cons)
  next
    case False
    with Cons.prems have "c = d" by simp
    moreover from Cons.prems have "class_idName d \<notin> dom (recorded_position cs)"
      by (simp add: dom_recorded_position)
    then have "recorded_position cs (class_idName d) = None"
      by blast
    ultimately show ?thesis
      by (simp add: recorded_position_Cons)
  qed
qed

lemma truthy_is_error:
  "\<forall>r \<in> set rs. r = PyNone \<or> is_error r \<Longrightarrow> filter truthy rs = filter is_error rs"
proof (rule filter_cong [OF refl])
  fix r assume "\<forall>r \<in> set rs. r = PyNone \<or> is_error r" and "r \<in> set rs"
  then have "r = PyNone \<or> is_error r" by blast
  then show "truthy r = is_error r" by (cases r) simp_all
qed

text \<open>
  C7. Pass 1 calls \<open>createType\<close> once for every class of the program, in order, and goes
  on after a failure: the list it returns holds the results that are truthy, which are
  the diagnostics when \<open>createType\<close> returns a diagnostic or \<^verbatim>\<open>None\<close>. With the list it
  returns a map whose domain is the set of all declared class names, registered or
  refused; a name is sent to the line and column of its last declaration, which is its
  only one when the names are distinct.
\<close>

theorem collector_program:
  "fst (TypeCollector_visit_NodeProgram createType n reg) =
     (filter truthy (createType_results createType (class_list n) reg),
      recorded_position (class_list n))
 \<and> length (createType_results createType (class_list n) reg) = length (class_list n)
 \<and> dom (recorded_position (class_list n)) = class_idName ` set (class_list n)
 \<and> (distinct (map class_idName (class_list n)) \<longrightarrow>
      (\<forall>c \<in> set (class_list n).
         recorded_position (class_list n) (class_idName c) = Some (class_line c, class_column c)))
 \<and> ((\<forall>r \<in> set (createType_results createType (class_list n) reg). r = PyNone \<or> is_error r) \<longrightarrow>
      filter truthy (createType_results createType (class_list n) reg)
        = filter is_error (createType_results createType (class_list n) reg))"
proof -
  have "(\<lambda>x. case recorded_position (class_list n) x of None \<Rightarrow> Map.empty x | Some p \<Rightarrow> Some p)
          = recorded_position (class_list n)"
    by (rule ext) (simp split: option.splits)
  then have "fst (TypeCollector_visit_NodeProgram createType n reg) =
     (filter truthy (createType_results createType (class_list n) reg),
      recorded_position (class_list n))"
    by (simp add: TypeCollector_visit_NodeProgram_def collector_loop_results)
  then show ?thesis
    using length_createType_results dom_recorded_position recorded_position_distinct truthy_is_error
    by blast
qed

theorem collector_program_witness:
  "fst (TypeCollector_visit_NodeProgram spec_createType example_program builtin_types) =
     ([Err (Error DuplicateType ''Int'' (5, 1))], recorded_position (class_list example_program))
 \<and> distinct (map class_idName (class_list example_program))
 \<and> createType_results spec_createType (class_list example_program) builtin_types =
      [PyNone, Err (Error DuplicateType ''Int'' (5, 1)), PyNone]
 \<and> filter truthy (createType_results spec_createType (class_list example_program) builtin_types)
      = filter is_error
          (createType_results spec_createType (class_list example_program) builtin_types)
 \<and> recorded_position (class_list example_program) ''A'' = Some (1, 1)
 \<and> recorded_position (class_list example_program) ''Int'' = Some (5, 1)
 \<and> recorded_position (class_list example_program) ''B'' = Some (9, 1)
 \<and> dom (recorded_position (class_list example_program)) = {''A'', ''Int'', ''B''}"
proof -
  have r: "createType_results spec_createType (class_list example_program) builtin_types =
     [PyNone, Err (Error DuplicateType ''Int'' (5, 1)), PyNone]"
    by (simp add: example_defs spec_createType_def)
  have d: "distinct (map class_idName (class_list example_program))"
    by (simp add: example_defs)
  from r have q: "\<forall>r \<in> set (createType_results spec_createType (class_list example_program)
      builtin_types). r = PyNone \<or> is_error r"
    by simp
  have p: "recorded_position (class_list example_program) ''A'' = Some (1, 1)"
    "recorded_position (class_list example_program) ''Int'' = Some (5, 1)"
    "recorded_position (class_list example_program) ''B'' = Some (9, 1)"
    by (simp_all add: example_defs recorded_position_def)
  have s: "class_idName ` set (class_list example_program) = {''A'', ''Int'', ''B''}"
    by (simp add: example_defs)
  from collector_program [of spec_createType example_program builtin_types] d q
  have f: "filter truthy
       (createType_results spec_createType (class_list example_program) builtin_types)
      = filter is_error
          (createType_results spec_createType (class_list example_program) builtin_types)"
    by blast
  from collector_program [of spec_createType example_program builtin_types] r d f p s
  show ?thesis by simp
qed

subsection \<open>Pass 2\<close>

lemma relate_calls_names:
  "\<forall>t par q r. map fst (snd (rel t par q r)) = map fst r \<Longrightarrow> set ts \<subseteq> set (map fst reg) \<Longrightarrow>
   map (\<lambda>c. fst (fst c)) (relate_calls rel ts lc reg) = ts"
proof (induction ts arbitrary: reg)
  case Nil
  then show ?case by simp
next
  case (Cons t ts)
  from Cons.prems obtain info where i: "map_of reg t = Some info"
    by (cases "map_of reg t") (auto simp: map_of_eq_None_iff)
  let ?q = "case lc t of None \<Rightarrow> (0, 0) | Some p \<Rightarrow> p"
  from Cons.prems(1) have "map fst (snd (rel t (parent info) ?q reg)) = map fst reg"
    by blast
  with Cons.prems(2) have "set ts \<subseteq> set (map fst (snd (rel t (parent info) ?q reg)))"
    by simp
  from Cons.IH [OF Cons.prems(1) this] i show ?case
    by (simp add: Let_def)
qed

lemma relate_calls_positions:
  "c \<in> set (relate_calls rel ts lc reg) \<Longrightarrow>
   snd (snd (fst c)) = (case lc (fst (fst c)) of None \<Rightarrow> (0, 0) | Some p \<Rightarrow> p)"
proof (induction ts arbitrary: reg)
  case Nil
  then show ?case by simp
next
  case (Cons t ts)
  then show ?case
    by (cases "map_of reg t") (auto simp: Let_def)
qed

lemma inheritance_loop_results:
  "\<forall>t par q r. map fst (snd (rel t par q r)) = map fst r \<Longrightarrow> set ts \<subseteq> set (map fst reg) \<Longrightarrow>
   fst (inheritance_loop rel ts lc reg errors) =
     Inr (errors @ filter is_error (map snd (relate_calls rel (filter (\<lambda>t. t \<noteq> ''Object'') ts) lc reg)))"
proof (induction ts arbitrary: reg errors)
  case Nil
  then show ?case by simp
next
  case (Cons t ts)
  show ?case
  proof (cases "t = ''Object''")
    case True
    with Cons show ?thesis by simp
  next
    case False
    from Cons.prems obtain info where i: "map_of reg t = Some info"
      by (cases "map_of reg t") (auto simp: map_of_eq_None_iff)
    let ?q = "case lc t of None \<Rightarrow> (0, 0) | Some p \<Rightarrow> p"
    obtain res reg1 where r: "rel t (parent info) ?q reg = (res, reg1)"
      by (cases "rel t (parent info) ?q reg")
    with Cons.prems have "map fst reg1 = map fst reg"
      by (metis snd_conv)
    with Cons.prems have "set ts \<subseteq> set (map fst reg1)" by simp
    from Cons.IH [OF Cons.prems(1) this] False i r show ?thesis
      by (simp add: visitForInherit_def Let_def)
  qed
qed

lemma spec_relateInheritance_names:
  "map fst (snd (spec_relateInheritance t par q r)) = map fst r"
  by (induction r) (auto simp: spec_relateInheritance_def)

text \<open>
  C8. Let \<open>relateInheritance\<close> keep the names of the registry. Pass 2 then calls it for the
  registered names other than \<^verbatim>\<open>Object\<close>, one call for each entry in the order of the
  registry, with the parent that the entry of the name holds when its turn comes and
  with the position that pass 1 recorded for the name, \<open>(0, 0)\<close> when it recorded none.
  It returns the diagnostics among the results of these calls in that order, so at most
  one for a name, and a diagnostic does not stop the calls for the names after it. The
  names of a dictionary are distinct, so every registered name other than \<^verbatim>\<open>Object\<close> has
  exactly one call.
\<close>

theorem inheritance_program:
  assumes "\<forall>t par q r. map fst (snd (rel t par q r)) = map fst r"
  shows "fst (TypeInheritance_visit_NodeProgram rel n lc reg) =
           Inr (filter is_error (map snd
                  (relate_calls rel (filter (\<lambda>t. t \<noteq> ''Object'') (map fst reg)) lc reg)))
       \<and> map (\<lambda>c. fst (fst c)) (relate_calls rel (filter (\<lambda>t. t \<noteq> ''Object'') (map fst reg)) lc reg)
           = filter (\<lambda>t. t \<noteq> ''Object'') (map fst reg)
       \<and> (\<forall>c \<in> set (relate_calls rel (filter (\<lambda>t. t \<noteq> ''Object'') (map fst reg)) lc reg).
            snd (snd (fst c)) = (case lc (fst (fst c)) of None \<Rightarrow> (0, 0) | Some p \<Rightarrow> p))
       \<and> (distinct (map fst reg) \<longrightarrow>
            distinct (map (\<lambda>c. fst (fst c))
              (relate_calls rel (filter (\<lambda>t. t \<noteq> ''Object'') (map fst reg)) lc reg))
          \<and> set (map (\<lambda>c. fst (fst c))
              (relate_calls rel (filter (\<lambda>t. t \<noteq> ''Object'') (map fst reg)) lc reg))
             = set (map fst reg) - {''Object''})"
proof (intro conjI ballI impI)
  show "fst (TypeInheritance_visit_NodeProgram rel n lc reg) =
           Inr (filter is_error (map snd
                  (relate_calls rel (filter (\<lambda>t. t \<noteq> ''Object'') (map fst reg)) lc reg)))"
    using inheritance_loop_results [OF assms, of "map fst reg" reg lc "[]"]
    by (simp add: TypeInheritance_visit_NodeProgram_def)
  show names: "map (\<lambda>c. fst (fst c))
            (relate_calls rel (filter (\<lambda>t. t \<noteq> ''Object'') (map fst reg)) lc reg)
           = filter (\<lambda>t. t \<noteq> ''Object'') (map fst reg)"
    using relate_calls_names [OF assms, of "filter (\<lambda>t. t \<noteq> ''Object'') (map fst reg)" reg lc]
    by auto
  show "distinct (map (\<lambda>c. fst (fst c))
              (relate_calls rel (filter (\<lambda>t. t \<noteq> ''Object'') (map fst reg)) lc reg))"
    if "distinct (map fst reg)"
    using that by (simp only: names distinct_filter)
  show "set (map (\<lambda>c. fst (fst c))
              (relate_calls rel (filter (\<lambda>t. t \<noteq> ''Object'') (map fst reg)) lc reg))
             = set (map fst reg) - {''Object''}"
    unfolding names by auto
next
  fix c assume "c \<in> set (relate_calls rel (filter (\<lambda>t. t \<noteq> ''Object'') (map fst reg)) lc reg)"
  then show "snd (snd (fst c)) = (case lc (fst (fst c)) of None \<Rightarrow> (0, 0) | Some p \<Rightarrow> p)"
    by (rule relate_calls_positions)
qed

theorem inheritance_program_witness:
  "(\<forall>t par q r. map fst (snd (spec_relateInheritance t par q r)) = map fst r)
 \<and> fst (TypeInheritance_visit_NodeProgram spec_relateInheritance example_program
          collected_positions collected_types)
     = Inr [Err (Error InvalidParent ''B'' (9, 1))]
 \<and> distinct (map fst collected_types)
 \<and> set (map fst collected_types) - {''Object''} = {''Int'', ''Bool'', ''String'', ''A'', ''B''}
 \<and> map (\<lambda>c. fst c)
      (relate_calls spec_relateInheritance
         (filter (\<lambda>t. t \<noteq> ''Object'') (map fst collected_types)) collected_positions collected_types)
     = [(''Int'', ''Object'', (5, 1)), (''Bool'', ''Object'', (0, 0)), (''String'', ''Object'', (0, 0)),
        (''A'', ''Object'', (1, 1)), (''B'', ''Undefined'', (9, 1))]"
proof -
  have k: "\<forall>t par q r. map fst (snd (spec_relateInheritance t par q r)) = map fst r"
    by (simp add: spec_relateInheritance_names)
  have c: "relate_calls spec_relateInheritance
         (filter (\<lambda>t. t \<noteq> ''Object'') (map fst collected_types)) collected_positions collected_types
     = [((''Int'', ''Object'', (5, 1)), PyNone), ((''Bool'', ''Object'', (0, 0)), PyNone),
        ((''String'', ''Object'', (0, 0)), PyNone), ((''A'', ''Object'', (1, 1)), PyNone),
        ((''B'', ''Undefined'', (9, 1)), Err (Error InvalidParent ''B'' (9, 1)))]"
    by (simp add: example_defs spec_relateInheritance_def Let_def)
  have d: "distinct (map fst collected_types)"
    by (simp add: example_defs)
  have s: "set (map fst collected_types) - {''Object''} = {''Int'', ''Bool'', ''String'', ''A'', ''B''}"
    by (auto simp: example_defs)
  from inheritance_program [OF k, of example_program collected_positions collected_types] k c d s
  show ?thesis by simp
qed

subsection \<open>Nodes without a visitor method\<close>

text \<open>
  C9. A node whose first base class is not \<^verbatim>\<open>NodeBinaryOperation\<close> and for whose class name
  \<^verbatim>\<open>TypeCheckerVisitor\<close> has no \<^verbatim>\<open>visit_\<close> method makes \<^verbatim>\<open>visit\<close> raise the exception of
  \<^verbatim>\<open>not_implemented\<close>; no diagnostic and no type name is returned, and the environment is
  left as it was.
\<close>

theorem unhandled_raises:
  assumes "\<not> bases0_is_NodeBinaryOperation n"
    and "visitor_method_name n \<notin> set TypeCheckerVisitor_methods"
  shows "visit ctx n env =
           (Inl (Exception (''Not implemented visit_'' @ clsname n @ '' method'')), env)"
  using assms
  by (cases n)
    (simp_all add: visitor_method_name_def TypeCheckerVisitor_methods_def not_implemented_def)

theorem unhandled_raises_witness:
  "\<not> bases0_is_NodeBinaryOperation (NodeOther ''NodeIf'' (1, 1))
 \<and> visitor_method_name (NodeOther ''NodeIf'' (1, 1)) \<notin> set TypeCheckerVisitor_methods
 \<and> visit (specContext example_types) (NodeOther ''NodeIf'' (1, 1)) example_env =
      (Inl (Exception ''Not implemented visit_NodeIf method''), example_env)"
proof -
  have a: "\<not> bases0_is_NodeBinaryOperation (NodeOther ''NodeIf'' (1, 1))" by simp
  have b: "visitor_method_name (NodeOther ''NodeIf'' (1, 1)) \<notin> set TypeCheckerVisitor_methods"
    by (simp add: visitor_method_name_def TypeCheckerVisitor_methods_def)
  from unhandled_raises [OF a b, of "specContext example_types" example_env] a b
  show ?thesis by simp
qed

end
